theory Spec2Isabelle
  imports Main
begin

section \<open>Error taxonomy (packages/core/src/error.ts)\<close>

text \<open>
  The string enum \<open>ErrorCode\<close>, one constructor per member, in the order of the source.
  A value the source casts to \<open>ErrorCode\<close> (\<open>as ErrorCode\<close>) is taken at that declared
  type: strings outside the enum are not values of this type.
\<close>

datatype ErrorCode =
    INVALID_CONTAINER_DATA
  | UNSUPPORTED_CONTAINER_VERSION
  | INVALID_ENCRYPTION_PARAMS
  | INVALID_KEY_WRAP_PARAMS
  | INVALID_KEY_PARAMS
  | DECRYPTION_FAILED
  | ENCRYPTION_FAILED
  | NOT_SUPPORTED
  | PUBLIC_KEY_MISMATCH
  | MISSING_ACCESS
  | FAILED_CONNECTION
  | UNEXPECTED_REDIRECT
  | BAD_REQUEST
  | INVALID_SESSION
  | SESSION_EXPIRED
  | DEPRECATED_API_VERSION
  | INSUFFICIENT_PERMISSIONS
  | RATE_LIMIT_EXCEEDED
  | INVALID_CREDENTIALS
  | ACCOUNT_EXISTS
  | EMAIL_VERIFICATION_FAILED
  | INVALID_RESPONSE
  | INVALID_REQUEST
  | MERGE_CONFLICT
  | MAX_REQUEST_SIZE_EXCEEDED
  | STORAGE_QUOTA_EXCEEDED
  | CLIENT_ERROR
  | SERVER_ERROR
  | UNKNOWN_ERROR
  | ENCODING_ERROR
  | NOT_FOUND
  | INVALID_CSV

text \<open>
  The two lookup tables. A key the object literal does not list reads as \<open>undefined\<close>
  in the source, which is \<open>None\<close> here.
\<close>

fun messages :: "ErrorCode \<Rightarrow> string option" where
  "messages EMAIL_VERIFICATION_FAILED = Some ''Email verification failed.''"
| "messages INVALID_CREDENTIALS = Some ''Username or password incorrect.''"
| "messages ACCOUNT_EXISTS = Some ''This account already exists.''"
| "messages _ = None"

fun statusCodes :: "ErrorCode \<Rightarrow> int option" where
  "statusCodes BAD_REQUEST = Some 400"
| "statusCodes EMAIL_VERIFICATION_FAILED = Some 400"
| "statusCodes INVALID_SESSION = Some 401"
| "statusCodes SESSION_EXPIRED = Some 401"
| "statusCodes INVALID_CREDENTIALS = Some 401"
| "statusCodes INSUFFICIENT_PERMISSIONS = Some 403"
| "statusCodes NOT_FOUND = Some 404"
| "statusCodes DEPRECATED_API_VERSION = Some 406"
| "statusCodes ACCOUNT_EXISTS = Some 409"
| "statusCodes _ = None"

text \<open>
  JavaScript's \<open>a || b\<close> on a value that may be \<open>undefined\<close>: the left operand when it
  is truthy, the right one otherwise. \<open>undefined\<close> is \<open>None\<close>; the truthiness of a
  defined value depends on its type: a string is truthy unless empty, a number unless
  zero (statuses are integers here, so \<open>NaN\<close> does not arise), a boolean when true.
\<close>

definition truthy_string :: "string \<Rightarrow> bool" where
  "truthy_string s = (s \<noteq> [])"

definition truthy_number :: "int \<Rightarrow> bool" where
  "truthy_number n = (n \<noteq> 0)"

definition truthy_boolean :: "bool \<Rightarrow> bool" where
  "truthy_boolean b = b"

fun js_or :: "('a \<Rightarrow> bool) \<Rightarrow> 'a option \<Rightarrow> 'a option \<Rightarrow> 'a option" where
  "js_or truthy None b = b"
| "js_or truthy (Some x) b = (if truthy x then Some x else b)"

text \<open>
  The built-in \<open>Error\<close> carries a message; \<open>class Err extends Error\<close> adds the fields
  of the source. \<open>originalError\<close> is optional.
\<close>

record Error =
  message :: string

record Err = Error +
  code :: ErrorCode
  report :: bool
  display :: bool
  status :: int
  originalError :: "Error option"

text \<open>
  The constructor's third parameter, \<open>opts\<close>: four optional fields, each \<open>None\<close> when
  absent. The fields carry the prefix \<open>opt_\<close> because \<open>report\<close>, \<open>display\<close> and
  \<open>status\<close> already name the fields of \<open>Err\<close>. The default \<open>{}\<close> is \<open>no_opts\<close>.
\<close>

record ErrOpts =
  opt_report :: "bool option"
  opt_display :: "bool option"
  opt_status :: "int option"
  opt_error :: "Error option"

definition no_opts :: ErrOpts where
  "no_opts = \<lparr>opt_report = None, opt_display = None, opt_status = None, opt_error = None\<rparr>"

text \<open>
  \<open>new Err(code, message, opts)\<close>, lines 72 to 83. An omitted \<open>message\<close> is \<open>None\<close>.
  Each \<open>||\<close> chain ends in a literal, so its value is always defined; the last
  \<open>case\<close> only reads it. \<open>opts.error && opts.error.message\<close> is \<open>undefined\<close> when
  \<open>opts.error\<close> is, and the cause's message otherwise: \<open>map_option message\<close>.
  \<open>display\<close> is computed from \<open>opts.report\<close>, as line 81 has it.
\<close>

definition Err_new :: "ErrorCode \<Rightarrow> string option \<Rightarrow> ErrOpts \<Rightarrow> Err" where
  "Err_new c msg opts =
     \<lparr> message =
         (case js_or truthy_string
                 (js_or truthy_string
                    (js_or truthy_string msg (messages c))
                    (map_option message (opt_error opts)))
                 (Some [])
          of Some s \<Rightarrow> s | None \<Rightarrow> []),
       code = c,
       report =
         (case js_or truthy_boolean (opt_report opts) (Some False)
          of Some b \<Rightarrow> b | None \<Rightarrow> False),
       display =
         (case js_or truthy_boolean (opt_report opts) (Some False)
          of Some b \<Rightarrow> b | None \<Rightarrow> False),
       status =
         (case js_or truthy_number
                 (js_or truthy_number (opt_status opts) (statusCodes c))
                 (Some 500)
          of Some n \<Rightarrow> n | None \<Rightarrow> 500),
       originalError = opt_error opts \<rparr>"

text \<open>
  The construction rule as the specification words it: the explicit message, else the
  kind's default message, else the cause's message, else the empty string; the explicit
  status, else the kind's default status, else 500. Here an argument counts as explicit
  whenever it is supplied.
\<close>

definition spec_message :: "ErrorCode \<Rightarrow> string option \<Rightarrow> ErrOpts \<Rightarrow> string" where
  "spec_message c msg opts =
     (case msg of Some m \<Rightarrow> m
      | None \<Rightarrow>
          (case messages c of Some d \<Rightarrow> d
           | None \<Rightarrow>
               (case opt_error opts of Some e \<Rightarrow> message e | None \<Rightarrow> [])))"

definition spec_status :: "ErrorCode \<Rightarrow> ErrOpts \<Rightarrow> int" where
  "spec_status c opts =
     (case opt_status opts of Some n \<Rightarrow> n
      | None \<Rightarrow> (case statusCodes c of Some n \<Rightarrow> n | None \<Rightarrow> 500))"

text \<open>
  The reading under which the rule holds of the code: a supplied argument that is falsy
  counts as absent.
\<close>

definition absent_if_falsy :: "('a \<Rightarrow> bool) \<Rightarrow> 'a option \<Rightarrow> 'a option" where
  "absent_if_falsy truthy v =
     (case v of None \<Rightarrow> None | Some x \<Rightarrow> if truthy x then Some x else None)"

section \<open>Decoding a failed transport exchange (errFromRequest)\<close>

text \<open>
  \<open>Number.prototype.toString\<close> on an integer: its decimal digits, most significant
  first, after a minus sign when it is negative. \<open>s[0]\<close> is the first character of
  \<open>s\<close>, \<open>undefined\<close> (here \<open>None\<close>) on the empty string.
\<close>

definition digit_char :: "nat \<Rightarrow> char" where
  "digit_char d = ''0123456789'' ! d"

fun nat_toString :: "nat \<Rightarrow> string" where
  "nat_toString n =
     (if n < 10 then [digit_char n] else nat_toString (n div 10) @ [digit_char (n mod 10)])"

declare nat_toString.simps [simp del]

definition Number_toString :: "int \<Rightarrow> string" where
  "Number_toString n =
     (if n < 0 then CHR ''-'' # nat_toString (nat (- n)) else nat_toString (nat n))"

definition charAt0 :: "string \<Rightarrow> char option" where
  "charAt0 s = (case s of [] \<Rightarrow> None | c # _ \<Rightarrow> Some c)"

text \<open>
  The two fields of \<open>XMLHttpRequest\<close> that \<open>errFromRequest\<close> reads. The status is
  \<open>xhr_status\<close> because \<open>status\<close> names the field of \<open>Err\<close>.
\<close>

record XMLHttpRequest =
  responseText :: string
  xhr_status :: int

text \<open>
  What line 92 binds: \<open>{ error, message }\<close>, at the type the source asserts for it
  (\<open>as { error: ErrorCode; message: string }\<close>).
\<close>

record ErrorPayload =
  payload_error :: ErrorCode
  payload_message :: string

text \<open>
  \<open>errFromRequest\<close>, lines 90 to 106. \<open>unmarshal\<close> is imported from
  \<open>./encoding\<close>, which is not among the sources, so it is a parameter: it stands for
  line 92 as a whole, \<open>Some\<close> of the bound fields when the body decodes, \<open>None\<close>
  when \<open>unmarshal\<close> or the destructuring throws, which is when the \<open>catch\<close> block
  runs. The \<open>switch\<close> compares the first character of the rendered status with
  \<open>"0"\<close>, \<open>"3"\<close> and \<open>"4"\<close> in turn.
\<close>

definition errFromRequest :: "(string \<Rightarrow> ErrorPayload option) \<Rightarrow> XMLHttpRequest \<Rightarrow> Err" where
  "errFromRequest unmarshal request =
     (case unmarshal (responseText request) of
        Some p \<Rightarrow>
          Err_new (payload_error p) (Some (payload_message p))
            (no_opts\<lparr>opt_status := Some (xhr_status request)\<rparr>)
      | None \<Rightarrow>
          (let first = charAt0 (Number_toString (xhr_status request)) in
           if first = Some CHR ''0'' then
             Err_new FAILED_CONNECTION (Some (responseText request))
               (no_opts\<lparr>opt_status := Some (xhr_status request)\<rparr>)
           else if first = Some CHR ''3'' then
             Err_new UNEXPECTED_REDIRECT (Some (responseText request))
               (no_opts\<lparr>opt_status := Some (xhr_status request)\<rparr>)
           else if first = Some CHR ''4'' then
             Err_new CLIENT_ERROR (Some (responseText request))
               (no_opts\<lparr>opt_status := Some (xhr_status request)\<rparr>)
           else
             Err_new SERVER_ERROR (Some (responseText request))
               (no_opts\<lparr>opt_status := Some (xhr_status request)\<rparr>)))"

text \<open>
  The first digit of a status computed by division, for comparison with the first
  character of its rendering.
\<close>

fun leading_digit :: "nat \<Rightarrow> nat" where
  "leading_digit n = (if n < 10 then n else leading_digit (n div 10))"

declare leading_digit.simps [simp del]

text \<open>
  A stand-in for \<open>unmarshal\<close> in the closed examples: it decodes the two bodies below
  and throws on every other.
\<close>

definition unmarshal_example :: "string \<Rightarrow> ErrorPayload option" where
  \<open>unmarshal_example s =
     (if s = ''{"error":"session_expired","message":"x"}'' then
        Some \<lparr>payload_error = SESSION_EXPIRED, payload_message = ''x''\<rparr>
      else if s = ''{"error":"invalid_credentials","message":""}'' then
        Some \<lparr>payload_error = INVALID_CREDENTIALS, payload_message = []\<rparr>
      else None)\<close>


section \<open>The authenticated call pipeline (Client.call)\<close>

text \<open>
  A JavaScript value thrown or stored as an error: an \<open>Err\<close> built by this code, or
  any other value \<open>'v\<close>. What a collaborator throws is passed through unchanged.
\<close>

datatype 'v thrown = Thrown 'v | ThrownErr Err

text \<open>
  How an awaited promise settles. \<open>Pending\<close> is the promise that never settles: the
  \<open>await\<close> does not resume and nothing after it runs.
\<close>

datatype ('e, 'a) settled = Fulfilled 'a | Rejected 'e | Pending

text \<open>
  The envelope of line 35, \<open>{ method, params, device }\<close>, with the prefix \<open>req_\<close>
  (\<open>method\<close> is a keyword, \<open>device\<close> names the field of \<open>ClientState\<close>). \<open>params\<close> is
  optional. \<open>req_auth\<close> is the place of what a session adds to the object in place; it
  is absent on the envelope as built.
\<close>

record ('v, 'd) Request =
  req_method :: string
  req_params :: "'v list option"
  req_device :: 'd
  req_auth :: "'v option"

text \<open>
  Modelled from the spec: \<open>./transport\<close> is not among the sources. A response envelope
  has an optional \<open>error\<close> with a \<open>code\<close> and a \<open>message\<close>, and an optional
  \<open>result\<close>. The code has the type the source casts it to on line 53.
\<close>

record ResponseError =
  error_code :: ErrorCode
  error_message :: string

record 'v Response =
  res_error :: "ResponseError option"
  result :: "'v option"

text \<open>
  Modelled from the spec: \<open>RequestProgress\<close> of \<open>./transport\<close> is not among the
  sources. A progress object has \<open>loaded\<close>, \<open>total\<close> and a terminal \<open>error\<close>, unset
  (\<open>None\<close>) until one is assigned.
\<close>

record 'v RequestProgress =
  loaded :: int
  total :: int
  progress_error :: "'v thrown option"

text \<open>
  The two collaborators, by the methods \<open>call\<close> invokes. \<open>authenticate\<close> resolves to
  the envelope as it has changed it in place. \<open>send\<close> is given the progress object as
  well; it returns how its promise settles and what it has done to that object meanwhile.
\<close>

record ('v, 'd) Session =
  authenticate :: "('v, 'd) Request \<Rightarrow> ('v thrown, ('v, 'd) Request) settled"
  verify :: "'v Response \<Rightarrow> ('v thrown, bool) settled"

record ('v, 'd) Sender =
  send :: "('v, 'd) Request \<Rightarrow> 'v RequestProgress option \<Rightarrow>
           ('v thrown, 'v Response) settled \<times> ('v RequestProgress \<Rightarrow> 'v RequestProgress)"

record ClientSettings =
  customServer :: bool
  customServerUrl :: string

record ('v, 'd, 'acc) ClientState =
  session :: "('v, 'd) Session option"
  account :: "'acc option"
  device :: 'd
  settings :: ClientSettings

record ('v, 'd, 'acc) Client =
  state :: "('v, 'd, 'acc) ClientState"
  sender :: "('v, 'd) Sender"

text \<open>
  What one invocation of \<open>call\<close> leaves behind: the calls it made on its collaborators
  and its writes to the progress object, in order (\<open>trace\<close>); the progress object
  afterwards; and how the returned promise settles.
\<close>

datatype ('v, 'd) event =
    Authenticate "('v, 'd) Request"
  | Send "('v, 'd) Request" "'v RequestProgress option"
  | Verify "'v Response"
  | SetProgressError "'v thrown"

record ('v, 'd) CallResult =
  trace :: "('v, 'd) event list"
  progress_after :: "'v RequestProgress option"
  outcome :: "('v thrown, 'v Response) settled"

text \<open>
  The three places that end with \<open>if (progress) { progress.error = e; } throw e;\<close>
  (lines 46 to 49, 54 to 57 and 62 to 65).
\<close>

definition throw_recording ::
  "'v thrown \<Rightarrow> 'v RequestProgress option \<Rightarrow> ('v, 'd) event list \<Rightarrow> ('v, 'd) CallResult" where
  "throw_recording e progress tr =
     (case progress of
        Some p \<Rightarrow>
          \<lparr>trace = tr @ [SetProgressError e],
           progress_after = Some (p\<lparr>progress_error := Some e\<rparr>),
           outcome = Rejected e\<rparr>
      | None \<Rightarrow> \<lparr>trace = tr, progress_after = None, outcome = Rejected e\<rparr>)"

text \<open>Lines 60 to 68: verification by the session, if there is one, and the return.\<close>

definition call_verify ::
  "('v, 'd) Session option \<Rightarrow> 'v Response \<Rightarrow> 'v RequestProgress option \<Rightarrow>
   ('v, 'd) event list \<Rightarrow> ('v, 'd) CallResult" where
  "call_verify sess res progress tr =
     (case sess of
        None \<Rightarrow> \<lparr>trace = tr, progress_after = progress, outcome = Fulfilled res\<rparr>
      | Some s \<Rightarrow>
          (case verify s res of
             Pending \<Rightarrow>
               \<lparr>trace = tr @ [Verify res], progress_after = progress, outcome = Pending\<rparr>
           | Rejected e \<Rightarrow>
               \<lparr>trace = tr @ [Verify res], progress_after = progress, outcome = Rejected e\<rparr>
           | Fulfilled ok \<Rightarrow>
               if \<not> ok then
                 throw_recording (ThrownErr (Err_new INVALID_RESPONSE None no_opts)) progress
                   (tr @ [Verify res])
               else
                 \<lparr>trace = tr @ [Verify res], progress_after = progress,
                  outcome = Fulfilled res\<rparr>))"

text \<open>Lines 52 to 58: a response that carries a structured error.\<close>

definition call_response ::
  "('v, 'd) Session option \<Rightarrow> 'v Response \<Rightarrow> 'v RequestProgress option \<Rightarrow>
   ('v, 'd) event list \<Rightarrow> ('v, 'd) CallResult" where
  "call_response sess res progress tr =
     (case res_error res of
        Some re \<Rightarrow>
          throw_recording
            (ThrownErr (Err_new (error_code re) (Some (error_message re)) no_opts)) progress tr
      | None \<Rightarrow> call_verify sess res progress tr)"

text \<open>Lines 41 to 50: the dispatch through the transport.\<close>

definition call_send ::
  "('v, 'd, 'acc) Client \<Rightarrow> ('v, 'd) Session option \<Rightarrow> ('v, 'd) Request \<Rightarrow>
   'v RequestProgress option \<Rightarrow> ('v, 'd) event list \<Rightarrow> ('v, 'd) CallResult" where
  "call_send client sess req progress tr =
     (case send (sender client) req progress of
        (sent, written) \<Rightarrow>
          (case sent of
             Pending \<Rightarrow>
               \<lparr>trace = tr @ [Send req progress],
                progress_after = map_option written progress, outcome = Pending\<rparr>
           | Rejected e \<Rightarrow>
               throw_recording e (map_option written progress) (tr @ [Send req progress])
           | Fulfilled res \<Rightarrow>
               call_response sess res (map_option written progress)
                 (tr @ [Send req progress])))"

text \<open>Line 35: the envelope.\<close>

definition envelope ::
  "('v, 'd, 'acc) Client \<Rightarrow> string \<Rightarrow> 'v list option \<Rightarrow> ('v, 'd) Request" where
  "envelope client method params =
     \<lparr>req_method = method, req_params = params, req_device = device (state client),
      req_auth = None\<rparr>"

text \<open>\<open>Client.call\<close>, lines 32 to 69.\<close>

definition call ::
  "('v, 'd, 'acc) Client \<Rightarrow> string \<Rightarrow> 'v list option \<Rightarrow> 'v RequestProgress option \<Rightarrow>
   ('v, 'd) CallResult" where
  "call client method params progress =
     (let sess = session (state client);
          req = envelope client method params
      in case sess of
           None \<Rightarrow> call_send client sess req progress []
         | Some s \<Rightarrow>
             (case authenticate s req of
                Pending \<Rightarrow>
                  \<lparr>trace = [Authenticate req], progress_after = progress, outcome = Pending\<rparr>
              | Rejected e \<Rightarrow>
                  \<lparr>trace = [Authenticate req], progress_after = progress,
                   outcome = Rejected e\<rparr>
              | Fulfilled req' \<Rightarrow>
                  call_send client sess req' progress [Authenticate req]))"

text \<open>
  The envelope that reaches the transport, when one does: the one built on line 35 with
  no session, the one the session's \<open>authenticate\<close> resolved to otherwise. It is
  \<open>None\<close> when \<open>authenticate\<close> rejects or never settles.
\<close>

definition sent_request ::
  "('v, 'd, 'acc) Client \<Rightarrow> string \<Rightarrow> 'v list option \<Rightarrow> ('v, 'd) Request option" where
  "sent_request client method params =
     (case session (state client) of
        None \<Rightarrow> Some (envelope client method params)
      | Some s \<Rightarrow>
          (case authenticate s (envelope client method params) of
             Fulfilled req' \<Rightarrow> Some req' | Rejected e \<Rightarrow> None | Pending \<Rightarrow> None))"

text \<open>
  The part of the trace that precedes the dispatch: the call of \<open>authenticate\<close> when
  there is a session, nothing otherwise.
\<close>

definition auth_trace :: "('v, 'd, 'acc) Client \<Rightarrow> string \<Rightarrow> 'v list option \<Rightarrow> ('v, 'd) event list" where
  "auth_trace client method params =
     (case session (state client) of
        None \<Rightarrow> [] | Some s \<Rightarrow> [Authenticate (envelope client method params)])"

text \<open>
  Collaborators for the closed examples. The session marks the envelope and accepts only
  the result 42. The transport answers by method name: a verifiable result, a result the
  session refuses, a structured error, and a failure to connect for any other method; it
  reports the transfer as complete on the progress object and leaves its error alone.
\<close>

definition example_session :: "(nat, string) Session" where
  "example_session =
     \<lparr>authenticate = (\<lambda>req. Fulfilled (req\<lparr>req_auth := Some 7\<rparr>)),
      verify = (\<lambda>res. Fulfilled (result res = Some 42))\<rparr>"

definition example_sender :: "(nat, string) Sender" where
  "example_sender =
     \<lparr>send = (\<lambda>req progress.
        (if req_method req = ''getVault'' then
           Fulfilled \<lparr>res_error = None, result = Some 42\<rparr>
         else if req_method req = ''forged'' then
           Fulfilled \<lparr>res_error = None, result = Some 13\<rparr>
         else if req_method req = ''missing'' then
           Fulfilled
             \<lparr>res_error = Some \<lparr>error_code = NOT_FOUND, error_message = ''no such vault''\<rparr>,
              result = None\<rparr>
         else Rejected (Thrown 0),
         \<lambda>p. p\<lparr>loaded := total p\<rparr>))\<rparr>"

definition example_client :: "(nat, string) Session option \<Rightarrow> (nat, string, unit) Client" where
  "example_client sess =
     \<lparr>state =
        \<lparr>session = sess, account = None, device = ''laptop'',
         settings = \<lparr>customServer = False, customServerUrl = []\<rparr>\<rparr>,
      sender = example_sender\<rparr>"

definition example_progress :: "nat RequestProgress" where
  "example_progress = \<lparr>loaded = 0, total = 10, progress_error = None\<rparr>"

section \<open>Properties of the error taxonomy\<close>

lemma messages_truthy: "messages c = Some d \<Longrightarrow> truthy_string d"
  by (cases c) (auto simp: truthy_string_def)

lemma statusCodes_truthy: "statusCodes c = Some n \<Longrightarrow> truthy_number n"
  by (cases c) (auto simp: truthy_number_def)

lemma Err_new_message:
  "message (Err_new c msg opts) = spec_message c (absent_if_falsy truthy_string msg) opts"
  by (cases msg; cases "messages c"; cases "opt_error opts")
     (auto simp: Err_new_def spec_message_def absent_if_falsy_def truthy_string_def
           dest: messages_truthy[unfolded truthy_string_def])

lemma Err_new_status:
  "status (Err_new c msg opts) =
     spec_status c (opts\<lparr>opt_status := absent_if_falsy truthy_number (opt_status opts)\<rparr>)"
  by (cases "opt_status opts"; cases "statusCodes c")
     (auto simp: Err_new_def spec_status_def absent_if_falsy_def truthy_number_def
           dest: statusCodes_truthy[unfolded truthy_number_def])

text \<open>
  Claim C5, as amended. The constructor resolves the message in priority order: the
  explicit message when it is not empty, else the kind's table-default message, else the
  wrapped cause's message, else the empty string. It resolves the status as the explicit
  override when that is not zero, else the kind's table-default status, else 500. In
  particular, with no explicit message, no cause and no status override, the message is
  the kind's table default (or empty) and the status the kind's table default (or 500).
\<close>

theorem Err_new_resolution:
  "message (Err_new c msg opts) = spec_message c (absent_if_falsy truthy_string msg) opts
   \<and> status (Err_new c msg opts) =
       spec_status c (opts\<lparr>opt_status := absent_if_falsy truthy_number (opt_status opts)\<rparr>)
   \<and> (msg = None \<and> opt_error opts = None \<and> opt_status opts = None \<longrightarrow>
        message (Err_new c msg opts) = (case messages c of Some d \<Rightarrow> d | None \<Rightarrow> [])
        \<and> status (Err_new c msg opts) = (case statusCodes c of Some n \<Rightarrow> n | None \<Rightarrow> 500))"
  by (simp add: Err_new_message Err_new_status spec_message_def spec_status_def
        absent_if_falsy_def split: option.splits)

theorem Err_new_resolution_witness:
  "message (Err_new ACCOUNT_EXISTS None no_opts) = ''This account already exists.''
   \<and> status (Err_new ACCOUNT_EXISTS None no_opts) = 409
   \<and> message (Err_new INVALID_RESPONSE None no_opts) = []
   \<and> status (Err_new INVALID_RESPONSE None no_opts) = 500"
proof -
  have absent: "opt_error no_opts = None" "opt_status no_opts = None"
    by (simp_all add: no_opts_def)
  from Err_new_resolution [of ACCOUNT_EXISTS None no_opts] absent
  have "message (Err_new ACCOUNT_EXISTS None no_opts) =
          (case messages ACCOUNT_EXISTS of Some d \<Rightarrow> d | None \<Rightarrow> [])
        \<and> status (Err_new ACCOUNT_EXISTS None no_opts) =
          (case statusCodes ACCOUNT_EXISTS of Some n \<Rightarrow> n | None \<Rightarrow> 500)"
    by blast
  moreover
  from Err_new_resolution [of INVALID_RESPONSE None no_opts] absent
  have "message (Err_new INVALID_RESPONSE None no_opts) =
          (case messages INVALID_RESPONSE of Some d \<Rightarrow> d | None \<Rightarrow> [])
        \<and> status (Err_new INVALID_RESPONSE None no_opts) =
          (case statusCodes INVALID_RESPONSE of Some n \<Rightarrow> n | None \<Rightarrow> 500)"
    by blast
  ultimately show ?thesis by simp
qed

text \<open>
  Counterexample to claim C5 as written: it fails where the explicit message is the empty string and the kind
  has a default message: the rule of the specification yields the empty string, the
  constructor the default.
\<close>

theorem Err_new_empty_message_counterexample:
  "message (Err_new INVALID_CREDENTIALS (Some []) no_opts)
     \<noteq> spec_message INVALID_CREDENTIALS (Some []) no_opts"
  by (simp add: Err_new_def spec_message_def no_opts_def truthy_string_def)

text \<open>
  Claim C7, as amended. For every kind, message and options, an explicitly supplied
  status other than zero is the status of the constructed error: it wins over the table
  default and over the fallback 500.
\<close>

theorem Err_new_status_override:
  "n \<noteq> 0 \<Longrightarrow> status (Err_new c msg (opts\<lparr>opt_status := Some n\<rparr>)) = n"
  by (simp add: Err_new_def truthy_number_def)

theorem Err_new_status_override_witness:
  "(418::int) \<noteq> 0
   \<and> status (Err_new BAD_REQUEST (Some ''teapot'') (no_opts\<lparr>opt_status := Some 418\<rparr>)) = 418"
  using Err_new_status_override [of 418 BAD_REQUEST "Some ''teapot''" no_opts]
  by simp

text \<open>
  Counterexample to claim C7 as written: it fails at the explicit status 0: the constructed error's status is
  not 0.
\<close>

theorem Err_new_status_zero_counterexample:
  "status (Err_new BAD_REQUEST (Some ''teapot'') (no_opts\<lparr>opt_status := Some 0\<rparr>)) \<noteq> 0"
  by (simp add: Err_new_def truthy_number_def)

text \<open>
  Claim C8. After every construction \<open>display\<close> equals \<open>report\<close>; both are
  \<open>opts.report || false\<close>, true exactly when \<open>opts.report\<close> is supplied and true; and
  \<open>opts.display\<close> is never read: replacing it by any value \<open>d\<close> constructs the same
  error.
\<close>

theorem Err_new_display_is_report:
  "display (Err_new c msg opts) = report (Err_new c msg opts)
   \<and> report (Err_new c msg opts) = (opt_report opts = Some True)
   \<and> Err_new c msg (opts\<lparr>opt_display := d\<rparr>) = Err_new c msg opts"
  by (cases "opt_report opts") (auto simp: Err_new_def truthy_boolean_def)

text \<open>
  Claim C9. Falsy explicit overrides count as absent. An explicit status 0 constructs
  the same error as no status at all: its status is the kind's table default or 500,
  never 0. An explicit empty message constructs the same error as no message at all: its
  message is the kind's table default or, failing that, the cause's message (empty when
  there is no cause).
\<close>

theorem Err_new_falsy_overrides_absent:
  "Err_new c msg (opts\<lparr>opt_status := Some 0\<rparr>) = Err_new c msg (opts\<lparr>opt_status := None\<rparr>)
   \<and> status (Err_new c msg (opts\<lparr>opt_status := Some 0\<rparr>)) =
       (case statusCodes c of Some n \<Rightarrow> n | None \<Rightarrow> 500)
   \<and> status (Err_new c msg (opts\<lparr>opt_status := Some 0\<rparr>)) \<noteq> 0
   \<and> Err_new c (Some []) opts = Err_new c None opts
   \<and> message (Err_new c (Some []) opts) =
       (case messages c of Some d \<Rightarrow> d
        | None \<Rightarrow> (case opt_error opts of Some e \<Rightarrow> message e | None \<Rightarrow> []))"
  by (cases "statusCodes c"; cases "messages c"; cases "opt_error opts")
     (auto simp: Err_new_def truthy_number_def truthy_string_def
           dest: statusCodes_truthy[unfolded truthy_number_def] messages_truthy[unfolded truthy_string_def])

section \<open>Properties of the decoder\<close>

text \<open>The first character of a rendered status is the character of its leading digit.\<close>

lemma digit_char_zero: "d < 10 \<Longrightarrow> digit_char d = CHR ''0'' \<longleftrightarrow> d = 0"
proof -
  assume "d < 10"
  then consider "d = 0" | "d = 1" | "d = 2" | "d = 3" | "d = 4" | "d = 5" | "d = 6"
    | "d = 7" | "d = 8" | "d = 9"
    by force
  then show ?thesis
    by cases (simp_all add: digit_char_def)
qed

lemma digit_char_inj: "d < 10 \<Longrightarrow> e < 10 \<Longrightarrow> digit_char d = digit_char e \<longleftrightarrow> d = e"
proof -
  assume d: "d < 10" and e: "e < 10"
  have distinct: "distinct ''0123456789''" by simp
  have len: "length ''0123456789'' = 10" by simp
  show ?thesis
    unfolding digit_char_def
    using nth_eq_iff_index_eq [OF distinct, of d e] d e len by simp
qed

lemma digit_char_not_minus: "d < 10 \<Longrightarrow> digit_char d \<noteq> CHR ''-''"
proof -
  assume "d < 10"
  then have "digit_char d \<in> set ''0123456789''"
    unfolding digit_char_def by (intro nth_mem) simp
  then show ?thesis by auto
qed

lemma nat_toString_nonempty: "nat_toString n \<noteq> []"
  by (induction n rule: nat_toString.induct) (subst nat_toString.simps, simp)

lemma leading_digit_less: "leading_digit n < 10"
  by (induction n rule: leading_digit.induct) (subst leading_digit.simps, simp)

lemma charAt0_nat_toString: "charAt0 (nat_toString n) = Some (digit_char (leading_digit n))"
proof (induction n rule: nat_toString.induct)
  case (1 n)
  show ?case
  proof (cases "n < 10")
    case True
    then show ?thesis
      by (subst nat_toString.simps, subst leading_digit.simps) (simp add: charAt0_def)
  next
    case False
    with 1 have ih: "charAt0 (nat_toString (n div 10)) = Some (digit_char (leading_digit (n div 10)))"
      by simp
    from False have unfold: "nat_toString n = nat_toString (n div 10) @ [digit_char (n mod 10)]"
      by (subst nat_toString.simps) simp
    from False have lead: "leading_digit n = leading_digit (n div 10)"
      by (subst leading_digit.simps) simp
    from ih show ?thesis
      unfolding unfold lead
      using nat_toString_nonempty [of "n div 10"]
      by (cases "nat_toString (n div 10)") (simp_all add: charAt0_def)
  qed
qed

lemma leading_digit_zero: "leading_digit n = 0 \<longleftrightarrow> n = 0"
proof (induction n rule: leading_digit.induct)
  case (1 n)
  show ?case
  proof (cases "n < 10")
    case True
    then show ?thesis by (subst leading_digit.simps) simp
  next
    case False
    then have "n div 10 \<noteq> 0" by simp
    with 1 False have "leading_digit (n div 10) \<noteq> 0" by simp
    with False show ?thesis by (subst leading_digit.simps) simp
  qed
qed

lemma charAt0_Number_toString:
  "charAt0 (Number_toString n) =
     (if n < 0 then Some CHR ''-'' else Some (digit_char (leading_digit (nat n))))"
  by (simp add: Number_toString_def charAt0_nat_toString) (simp add: charAt0_def)

lemma first_char_zero_iff: "charAt0 (Number_toString n) = Some CHR ''0'' \<longleftrightarrow> n = 0"
proof (cases "n < 0")
  case True
  then show ?thesis by (simp add: charAt0_Number_toString)
next
  case False
  then show ?thesis
    using digit_char_zero [OF leading_digit_less, of "nat n"] leading_digit_zero [of "nat n"]
    by (simp add: charAt0_Number_toString)
qed

lemma first_char_digit_iff:
  "d < 10 \<Longrightarrow> charAt0 (Number_toString n) = Some (digit_char d) \<longleftrightarrow> 0 \<le> n \<and> leading_digit (nat n) = d"
  using digit_char_inj [OF leading_digit_less, of d "nat n"] digit_char_not_minus [of d]
  by (auto simp: charAt0_Number_toString)



lemma Err_new_code: "code (Err_new c msg opts) = c"
  by (simp add: Err_new_def)

lemma Err_new_explicit_message:
  "m \<noteq> [] \<Longrightarrow> message (Err_new c (Some m) opts) = m"
  by (simp add: Err_new_def truthy_string_def)

lemma Err_new_message_no_default:
  "messages c = None \<Longrightarrow> opt_error opts = None \<Longrightarrow> message (Err_new c (Some m) opts) = m"
  by (simp add: Err_new_def truthy_string_def)

lemma Err_new_empty_message:
  "opt_error opts = None \<Longrightarrow>
   message (Err_new c (Some []) opts) = (case messages c of Some d \<Rightarrow> d | None \<Rightarrow> [])"
  by (cases "messages c")
     (auto simp: Err_new_def truthy_string_def dest: messages_truthy[unfolded truthy_string_def])

lemma Err_new_nonzero_status:
  "n \<noteq> 0 \<Longrightarrow> status (Err_new c msg (opts\<lparr>opt_status := Some n\<rparr>)) = n"
  by (simp add: Err_new_def truthy_number_def)

lemma errFromRequest_parsed:
  "unmarshal (responseText r) = Some p \<Longrightarrow>
   errFromRequest unmarshal r =
     Err_new (payload_error p) (Some (payload_message p)) (no_opts\<lparr>opt_status := Some (xhr_status r)\<rparr>)"
  by (simp add: errFromRequest_def)

lemma errFromRequest_unparsed:
  "unmarshal (responseText r) = None \<Longrightarrow>
   errFromRequest unmarshal r =
     Err_new
       (if charAt0 (Number_toString (xhr_status r)) = Some CHR ''0'' then FAILED_CONNECTION
        else if charAt0 (Number_toString (xhr_status r)) = Some CHR ''3'' then UNEXPECTED_REDIRECT
        else if charAt0 (Number_toString (xhr_status r)) = Some CHR ''4'' then CLIENT_ERROR
        else SERVER_ERROR)
       (Some (responseText r)) (no_opts\<lparr>opt_status := Some (xhr_status r)\<rparr>)"
  by (simp add: errFromRequest_def Let_def)

text \<open>
  Claim C3, as amended. For every failed transport exchange \<open>errFromRequest\<close> produces
  one \<open>Err\<close>. When the body decodes to a structured payload, the error has the
  server-declared kind; its message is the server-declared message when that is not
  empty, and the kind's table-default message (or the empty string) when it is; its
  status is the transport status when that is not zero. When decoding fails, the kind is
  chosen by the first character of the decimal rendering of the status: \<open>0\<close> gives
  \<open>FAILED_CONNECTION\<close>, \<open>3\<close> gives \<open>UNEXPECTED_REDIRECT\<close>, \<open>4\<close> gives \<open>CLIENT_ERROR\<close>,
  anything else gives \<open>SERVER_ERROR\<close>; the message is the raw body text, and the status
  is the transport status when that is not zero.
\<close>

theorem errFromRequest_decodes:
  "(unmarshal (responseText r) = Some p \<longrightarrow>
      code (errFromRequest unmarshal r) = payload_error p
      \<and> (payload_message p \<noteq> [] \<longrightarrow>
           message (errFromRequest unmarshal r) = payload_message p)
      \<and> (payload_message p = [] \<longrightarrow>
           message (errFromRequest unmarshal r) =
             (case messages (payload_error p) of Some d \<Rightarrow> d | None \<Rightarrow> []))
      \<and> (xhr_status r \<noteq> 0 \<longrightarrow> status (errFromRequest unmarshal r) = xhr_status r))
   \<and> (unmarshal (responseText r) = None \<longrightarrow>
      (charAt0 (Number_toString (xhr_status r)) = Some CHR ''0'' \<longrightarrow>
         code (errFromRequest unmarshal r) = FAILED_CONNECTION)
      \<and> (charAt0 (Number_toString (xhr_status r)) = Some CHR ''3'' \<longrightarrow>
           code (errFromRequest unmarshal r) = UNEXPECTED_REDIRECT)
      \<and> (charAt0 (Number_toString (xhr_status r)) = Some CHR ''4'' \<longrightarrow>
           code (errFromRequest unmarshal r) = CLIENT_ERROR)
      \<and> (charAt0 (Number_toString (xhr_status r)) \<notin> {Some CHR ''0'', Some CHR ''3'', Some CHR ''4''} \<longrightarrow>
           code (errFromRequest unmarshal r) = SERVER_ERROR)
      \<and> message (errFromRequest unmarshal r) = responseText r
      \<and> (xhr_status r \<noteq> 0 \<longrightarrow> status (errFromRequest unmarshal r) = xhr_status r))"
proof (intro conjI impI)
  assume p: "unmarshal (responseText r) = Some p"
  show "code (errFromRequest unmarshal r) = payload_error p"
    using p by (simp add: errFromRequest_parsed Err_new_code)
  show "message (errFromRequest unmarshal r) = payload_message p" if "payload_message p \<noteq> []"
    using p that by (simp add: errFromRequest_parsed Err_new_explicit_message)
  show "message (errFromRequest unmarshal r) =
          (case messages (payload_error p) of Some d \<Rightarrow> d | None \<Rightarrow> [])"
    if "payload_message p = []"
    using p that by (simp add: errFromRequest_parsed Err_new_empty_message no_opts_def)
  show "status (errFromRequest unmarshal r) = xhr_status r" if "xhr_status r \<noteq> 0"
    using p that by (simp add: errFromRequest_parsed Err_new_nonzero_status)
next
  assume u: "unmarshal (responseText r) = None"
  show "code (errFromRequest unmarshal r) = FAILED_CONNECTION"
    if "charAt0 (Number_toString (xhr_status r)) = Some CHR ''0''"
    using u that by (simp add: errFromRequest_unparsed Err_new_code)
  show "code (errFromRequest unmarshal r) = UNEXPECTED_REDIRECT"
    if "charAt0 (Number_toString (xhr_status r)) = Some CHR ''3''"
    using u that by (simp add: errFromRequest_unparsed Err_new_code)
  show "code (errFromRequest unmarshal r) = CLIENT_ERROR"
    if "charAt0 (Number_toString (xhr_status r)) = Some CHR ''4''"
    using u that by (simp add: errFromRequest_unparsed Err_new_code)
  show "code (errFromRequest unmarshal r) = SERVER_ERROR"
    if "charAt0 (Number_toString (xhr_status r)) \<notin> {Some CHR ''0'', Some CHR ''3'', Some CHR ''4''}"
    using u that by (simp add: errFromRequest_unparsed Err_new_code)
  show "message (errFromRequest unmarshal r) = responseText r"
    using u by (simp add: errFromRequest_unparsed Err_new_message_no_default no_opts_def)
  show "status (errFromRequest unmarshal r) = xhr_status r" if "xhr_status r \<noteq> 0"
    using u that by (simp add: errFromRequest_unparsed Err_new_nonzero_status)
qed

lemma first_char_302: "charAt0 (Number_toString 302) = Some CHR ''3''"
  by (simp add: Number_toString_def nat_toString.simps charAt0_def digit_char_def)

lemma first_char_404: "charAt0 (Number_toString 404) = Some CHR ''4''"
  by (simp add: Number_toString_def nat_toString.simps charAt0_def digit_char_def)

lemma first_char_503: "charAt0 (Number_toString 503) = Some CHR ''5''"
  by (simp add: Number_toString_def nat_toString.simps charAt0_def digit_char_def)

lemma first_char_0: "charAt0 (Number_toString 0) = Some CHR ''0''"
  by (simp add: Number_toString_def nat_toString.simps charAt0_def digit_char_def)

theorem errFromRequest_decodes_witness:
  \<open>code (errFromRequest unmarshal_example
       \<lparr>responseText = ''{"error":"session_expired","message":"x"}'', xhr_status = 401\<rparr>) = SESSION_EXPIRED
   \<and> message (errFromRequest unmarshal_example
       \<lparr>responseText = ''{"error":"session_expired","message":"x"}'', xhr_status = 401\<rparr>) = ''x''
   \<and> status (errFromRequest unmarshal_example
       \<lparr>responseText = ''{"error":"session_expired","message":"x"}'', xhr_status = 401\<rparr>) = 401
   \<and> code (errFromRequest unmarshal_example \<lparr>responseText = ''oops'', xhr_status = 0\<rparr>) = FAILED_CONNECTION
   \<and> message (errFromRequest unmarshal_example \<lparr>responseText = ''oops'', xhr_status = 0\<rparr>) = ''oops''
   \<and> code (errFromRequest unmarshal_example \<lparr>responseText = ''oops'', xhr_status = 302\<rparr>) = UNEXPECTED_REDIRECT
   \<and> status (errFromRequest unmarshal_example \<lparr>responseText = ''oops'', xhr_status = 302\<rparr>) = 302
   \<and> code (errFromRequest unmarshal_example \<lparr>responseText = ''oops'', xhr_status = 404\<rparr>) = CLIENT_ERROR
   \<and> code (errFromRequest unmarshal_example \<lparr>responseText = ''oops'', xhr_status = 503\<rparr>) = SERVER_ERROR\<close>
proof -
  let ?body = \<open>''{"error":"session_expired","message":"x"}''\<close>
  let ?p = "\<lparr>payload_error = SESSION_EXPIRED, payload_message = ''x''\<rparr>"
  have parsed: "unmarshal_example (responseText \<lparr>responseText = ?body, xhr_status = 401\<rparr>) = Some ?p"
    by (simp add: unmarshal_example_def)
  have unparsed: "unmarshal_example (responseText \<lparr>responseText = ''oops'', xhr_status = n\<rparr>) = None" for n
    by (simp add: unmarshal_example_def)
  note structured = errFromRequest_decodes
    [of unmarshal_example "\<lparr>responseText = ?body, xhr_status = 401\<rparr>" ?p]
  note heuristic = errFromRequest_decodes
    [of unmarshal_example "\<lparr>responseText = ''oops'', xhr_status = n\<rparr>" ?p for n]
  from structured parsed
  have "code (errFromRequest unmarshal_example \<lparr>responseText = ?body, xhr_status = 401\<rparr>) = SESSION_EXPIRED
        \<and> message (errFromRequest unmarshal_example \<lparr>responseText = ?body, xhr_status = 401\<rparr>) = ''x''
        \<and> status (errFromRequest unmarshal_example \<lparr>responseText = ?body, xhr_status = 401\<rparr>) = 401"
    by simp
  moreover from heuristic [of 0] unparsed [of 0] first_char_0
  have "code (errFromRequest unmarshal_example \<lparr>responseText = ''oops'', xhr_status = 0\<rparr>) = FAILED_CONNECTION
        \<and> message (errFromRequest unmarshal_example \<lparr>responseText = ''oops'', xhr_status = 0\<rparr>) = ''oops''"
    by simp
  moreover from heuristic [of 302] unparsed [of 302] first_char_302
  have "code (errFromRequest unmarshal_example \<lparr>responseText = ''oops'', xhr_status = 302\<rparr>) = UNEXPECTED_REDIRECT
        \<and> status (errFromRequest unmarshal_example \<lparr>responseText = ''oops'', xhr_status = 302\<rparr>) = 302"
    by simp
  moreover from heuristic [of 404] unparsed [of 404] first_char_404
  have "code (errFromRequest unmarshal_example \<lparr>responseText = ''oops'', xhr_status = 404\<rparr>) = CLIENT_ERROR"
    by simp
  moreover from heuristic [of 503] unparsed [of 503] first_char_503
  have "code (errFromRequest unmarshal_example \<lparr>responseText = ''oops'', xhr_status = 503\<rparr>) = SERVER_ERROR"
    by simp
  ultimately show ?thesis by blast
qed

text \<open>
  Counterexample to claim C3 as written: it fails at two exchanges. With an undecodable body and the transport
  status 0, the error's status is not 0. With a structured payload whose message is the
  empty string and whose kind has a default message, the error's message is not the
  server-declared one.
\<close>

theorem errFromRequest_falsy_counterexample:
  \<open>unmarshal_example ''oops'' = None
   \<and> status (errFromRequest unmarshal_example \<lparr>responseText = ''oops'', xhr_status = 0\<rparr>) \<noteq> 0
   \<and> unmarshal_example ''{"error":"invalid_credentials","message":""}''
       = Some \<lparr>payload_error = INVALID_CREDENTIALS, payload_message = []\<rparr>
   \<and> message (errFromRequest unmarshal_example
        \<lparr>responseText = ''{"error":"invalid_credentials","message":""}'', xhr_status = 401\<rparr>) \<noteq> []\<close>
  by (simp add: errFromRequest_def unmarshal_example_def first_char_0 Err_new_def
        truthy_number_def truthy_string_def no_opts_def)

text \<open>
  The heuristic at the transport status 0, and its reading by digits: a status renders
  with the first character \<open>0\<close> only when it is 0, and the error then carries the
  status 500; for a status that is not negative the kind depends on its leading decimal
  digit, and a negative status renders with a minus sign first.
\<close>

lemma errFromRequest_no_connection:
  "unmarshal (responseText r) = None \<Longrightarrow> xhr_status r = 0 \<Longrightarrow>
   code (errFromRequest unmarshal r) = FAILED_CONNECTION \<and> status (errFromRequest unmarshal r) = 500"
  by (simp add: errFromRequest_unparsed first_char_0 Err_new_def truthy_number_def no_opts_def)

lemma errFromRequest_first_digit:
  "unmarshal (responseText r) = None \<Longrightarrow>
   code (errFromRequest unmarshal r) =
     (if xhr_status r < 0 then SERVER_ERROR
      else if leading_digit (nat (xhr_status r)) = 0 then FAILED_CONNECTION
      else if leading_digit (nat (xhr_status r)) = 3 then UNEXPECTED_REDIRECT
      else if leading_digit (nat (xhr_status r)) = 4 then CLIENT_ERROR
      else SERVER_ERROR)"
  using first_char_digit_iff [of 0 "xhr_status r"] first_char_digit_iff [of 3 "xhr_status r"]
    first_char_digit_iff [of 4 "xhr_status r"]
  by (simp add: errFromRequest_unparsed Err_new_code digit_char_def)

section \<open>Properties of the call pipeline\<close>

text \<open>The stages of \<open>call\<close>, one equation for each way a stage can go.\<close>

lemma call_reaches_send:
  "sent_request c m ps = Some q \<Longrightarrow>
   call c m ps pg = call_send c (session (state c)) q pg (auth_trace c m ps)"
  by (auto simp: sent_request_def call_def auth_trace_def Let_def
           split: option.splits settled.splits)

lemma call_stops_at_authenticate:
  "sent_request c m ps = None \<Longrightarrow>
   \<exists>s. session (state c) = Some s
     \<and> (\<forall>q. authenticate s (envelope c m ps) \<noteq> Fulfilled q)
     \<and> trace (call c m ps pg) = [Authenticate (envelope c m ps)]
     \<and> progress_after (call c m ps pg) = pg
     \<and> (\<forall>res. outcome (call c m ps pg) \<noteq> Fulfilled res)"
  by (auto simp: sent_request_def call_def Let_def split: option.splits settled.splits)

lemma call_send_rejected:
  "send (sender c) q pg = (Rejected e, w) \<Longrightarrow>
   call_send c sess q pg tr = throw_recording e (map_option w pg) (tr @ [Send q pg])"
  by (simp add: call_send_def)

lemma call_send_fulfilled:
  "send (sender c) q pg = (Fulfilled res, w) \<Longrightarrow>
   call_send c sess q pg tr = call_response sess res (map_option w pg) (tr @ [Send q pg])"
  by (simp add: call_send_def)

lemma call_send_pending:
  "send (sender c) q pg = (Pending, w) \<Longrightarrow>
   call_send c sess q pg tr =
     \<lparr>trace = tr @ [Send q pg], progress_after = map_option w pg, outcome = Pending\<rparr>"
  by (simp add: call_send_def)

lemma call_response_error:
  "res_error res = Some re \<Longrightarrow>
   call_response sess res pg tr =
     throw_recording (ThrownErr (Err_new (error_code re) (Some (error_message re)) no_opts)) pg tr"
  by (simp add: call_response_def)

lemma call_response_clean:
  "res_error res = None \<Longrightarrow> call_response sess res pg tr = call_verify sess res pg tr"
  by (simp add: call_response_def)

lemma call_verify_false:
  "verify s res = Fulfilled False \<Longrightarrow>
   call_verify (Some s) res pg tr =
     throw_recording (ThrownErr (Err_new INVALID_RESPONSE None no_opts)) pg (tr @ [Verify res])"
  by (simp add: call_verify_def)

lemma throw_recording_outcome: "outcome (throw_recording e pg tr) = Rejected e"
  by (simp add: throw_recording_def split: option.splits)

lemma throw_recording_progress:
  "progress_after (throw_recording e pg tr) = map_option (\<lambda>p. p\<lparr>progress_error := Some e\<rparr>) pg"
  by (simp add: throw_recording_def split: option.splits)

lemma throw_recording_trace:
  "trace (throw_recording e pg tr) = tr @ (case pg of None \<Rightarrow> [] | Some p \<Rightarrow> [SetProgressError e])"
  by (simp add: throw_recording_def split: option.splits)

text \<open>
  Claim C1. For every invocation of \<open>call\<close>. With no session, \<open>authenticate\<close> and
  \<open>verify\<close> are never invoked and the first thing that happens is the dispatch of the
  envelope as built, with no authentication material on it. With a session,
  \<open>authenticate\<close> is invoked first, on the envelope as built; the transport is reached
  only after \<open>authenticate\<close> has resolved, with the envelope it resolved to, and directly
  after it; \<open>verify\<close> is invoked on every response without a structured error, and only
  on such a response, directly after the dispatch; and a call that returns a response has
  invoked \<open>verify\<close> on it, last of all, and \<open>verify\<close> has resolved to true.
\<close>

theorem call_order:
  "(session (state c) = None \<longrightarrow>
      (\<forall>q. Authenticate q \<notin> set (trace (call c m ps pg)))
      \<and> (\<forall>x. Verify x \<notin> set (trace (call c m ps pg)))
      \<and> (\<exists>rest. trace (call c m ps pg) = Send (envelope c m ps) pg # rest)
      \<and> req_auth (envelope c m ps) = None)
   \<and> (session (state c) = Some s \<longrightarrow>
      (\<exists>rest. trace (call c m ps pg) = Authenticate (envelope c m ps) # rest)
      \<and> (\<forall>q p. Send q p \<in> set (trace (call c m ps pg)) \<longrightarrow>
            authenticate s (envelope c m ps) = Fulfilled q \<and> p = pg
            \<and> (\<exists>rest. trace (call c m ps pg) = Authenticate (envelope c m ps) # Send q p # rest))
      \<and> (\<forall>q res. authenticate s (envelope c m ps) = Fulfilled q
              \<and> fst (send (sender c) q pg) = Fulfilled res \<and> res_error res = None \<longrightarrow>
            (\<exists>rest. trace (call c m ps pg) =
               Authenticate (envelope c m ps) # Send q pg # Verify res # rest))
      \<and> (\<forall>res. Verify res \<in> set (trace (call c m ps pg)) \<longrightarrow>
            res_error res = None
            \<and> (\<exists>q rest. fst (send (sender c) q pg) = Fulfilled res
                 \<and> trace (call c m ps pg) =
                     Authenticate (envelope c m ps) # Send q pg # Verify res # rest))
      \<and> (\<forall>res. outcome (call c m ps pg) = Fulfilled res \<longrightarrow>
            verify s res = Fulfilled True
            \<and> (\<exists>q. trace (call c m ps pg) =
                  [Authenticate (envelope c m ps), Send q pg, Verify res])))"
  by (auto simp: call_def call_send_def call_response_def call_verify_def throw_recording_def
        envelope_def Let_def
      split: option.splits settled.splits prod.splits if_splits)

text \<open>
  Claim C2. With a session, when the envelope reaches the transport, the transport
  resolves to a response without a structured error and \<open>verify\<close> resolves to false on
  it, the call rejects with an \<open>Err\<close> whose code is \<open>INVALID_RESPONSE\<close>.
\<close>

theorem call_rejects_unverified:
  "session (state c) = Some s \<Longrightarrow>
   sent_request c m ps = Some q \<Longrightarrow>
   fst (send (sender c) q pg) = Fulfilled res \<Longrightarrow>
   res_error res = None \<Longrightarrow>
   verify s res = Fulfilled False \<Longrightarrow>
   outcome (call c m ps pg) = Rejected (ThrownErr (Err_new INVALID_RESPONSE None no_opts))
   \<and> code (Err_new INVALID_RESPONSE None no_opts) = INVALID_RESPONSE"
proof -
  assume sess: "session (state c) = Some s"
    and sent: "sent_request c m ps = Some q"
    and res: "fst (send (sender c) q pg) = Fulfilled res"
    and clean: "res_error res = None"
    and no: "verify s res = Fulfilled False"
  obtain w where w: "send (sender c) q pg = (Fulfilled res, w)"
    using res by (cases "send (sender c) q pg") simp
  have "call c m ps pg =
          throw_recording (ThrownErr (Err_new INVALID_RESPONSE None no_opts)) (map_option w pg)
            ((auth_trace c m ps @ [Send q pg]) @ [Verify res])"
    by (simp add: call_reaches_send [OF sent] call_send_fulfilled [OF w]
          call_response_clean [OF clean] sess call_verify_false [OF no])
  then show ?thesis
    by (simp add: throw_recording_outcome Err_new_def)
qed

text \<open>
  Claim C4. When the transport resolves to a response with a structured error, the call
  rejects with the \<open>Err\<close> constructed from the declared code and message and no
  options. Its status is therefore the kind's table default, or 500 when the kind has
  none. \<open>verify\<close> is not invoked. When a progress object was supplied, the same error
  is on it when the call rejects, and assigning it is the last thing the call did.
\<close>

theorem call_raises_structured_error:
  "sent_request c m ps = Some q \<Longrightarrow>
   send (sender c) q pg = (Fulfilled res, w) \<Longrightarrow>
   res_error res = Some re \<Longrightarrow>
   outcome (call c m ps pg) =
     Rejected (ThrownErr (Err_new (error_code re) (Some (error_message re)) no_opts))
   \<and> code (Err_new (error_code re) (Some (error_message re)) no_opts) = error_code re
   \<and> status (Err_new (error_code re) (Some (error_message re)) no_opts) =
       (case statusCodes (error_code re) of Some n \<Rightarrow> n | None \<Rightarrow> 500)
   \<and> (\<forall>x. Verify x \<notin> set (trace (call c m ps pg)))
   \<and> (\<forall>p. pg = Some p \<longrightarrow>
         progress_after (call c m ps pg) =
           Some ((w p)\<lparr>progress_error :=
              Some (ThrownErr (Err_new (error_code re) (Some (error_message re)) no_opts))\<rparr>)
         \<and> last (trace (call c m ps pg)) =
             SetProgressError
               (ThrownErr (Err_new (error_code re) (Some (error_message re)) no_opts)))"
proof -
  assume sent: "sent_request c m ps = Some q"
    and w: "send (sender c) q pg = (Fulfilled res, w)"
    and re: "res_error res = Some re"
  let ?err = "ThrownErr (Err_new (error_code re) (Some (error_message re)) no_opts)"
  have unfolded: "call c m ps pg =
      throw_recording ?err (map_option w pg) (auth_trace c m ps @ [Send q pg])"
    by (simp add: call_reaches_send [OF sent] call_send_fulfilled [OF w]
          call_response_error [OF re])
  have status: "status (Err_new (error_code re) (Some (error_message re)) no_opts) =
       (case statusCodes (error_code re) of Some n \<Rightarrow> n | None \<Rightarrow> 500)"
    by (cases "statusCodes (error_code re)")
       (auto simp: Err_new_def no_opts_def dest: statusCodes_truthy)
  have no_verify: "Verify x \<notin> set (auth_trace c m ps)" for x
    by (simp add: auth_trace_def split: option.splits)
  show ?thesis
    unfolding unfolded
    by (auto simp: throw_recording_outcome throw_recording_progress throw_recording_trace
          Err_new_code status no_verify split: option.splits)
qed


text \<open>
  Claim C6. A progress object \<open>p\<close> is supplied. If the transport rejects, if the
  response carries a structured error, or if \<open>verify\<close> resolves to false, the call
  rejects and the error on the progress object is the error it rejects with. If the call
  returns a response, it has not written to the progress object, which is as the
  transport left it; so when its error was unset on entry and the transport does not
  write that field, the error remains unset.
\<close>

theorem call_progress_error:
  "(sent_request c m ps = Some q \<and> send (sender c) q (Some p) = (Rejected e, w) \<longrightarrow>
      outcome (call c m ps (Some p)) = Rejected e
      \<and> progress_after (call c m ps (Some p)) = Some ((w p)\<lparr>progress_error := Some e\<rparr>))
   \<and> (sent_request c m ps = Some q \<and> send (sender c) q (Some p) = (Fulfilled res, w)
        \<and> res_error res = Some re \<longrightarrow>
      (\<exists>e. outcome (call c m ps (Some p)) = Rejected e
         \<and> progress_after (call c m ps (Some p)) = Some ((w p)\<lparr>progress_error := Some e\<rparr>)))
   \<and> (session (state c) = Some s \<and> sent_request c m ps = Some q
        \<and> send (sender c) q (Some p) = (Fulfilled res, w)
        \<and> res_error res = None \<and> verify s res = Fulfilled False \<longrightarrow>
      (\<exists>e. outcome (call c m ps (Some p)) = Rejected e
         \<and> progress_after (call c m ps (Some p)) = Some ((w p)\<lparr>progress_error := Some e\<rparr>)))
   \<and> (outcome (call c m ps (Some p)) = Fulfilled res \<longrightarrow>
      (\<forall>e. SetProgressError e \<notin> set (trace (call c m ps (Some p))))
      \<and> (\<exists>q. sent_request c m ps = Some q
             \<and> progress_after (call c m ps (Some p)) = Some (snd (send (sender c) q (Some p)) p))
      \<and> (progress_error p = None
          \<and> (\<forall>q. progress_error (snd (send (sender c) q (Some p)) p) = progress_error p) \<longrightarrow>
          (\<exists>p'. progress_after (call c m ps (Some p)) = Some p' \<and> progress_error p' = None)))"
proof (intro conjI impI)
  assume "sent_request c m ps = Some q \<and> send (sender c) q (Some p) = (Rejected e, w)"
  then have "call c m ps (Some p) =
      throw_recording e (Some (w p)) (auth_trace c m ps @ [Send q (Some p)])"
    by (simp add: call_reaches_send call_send_rejected)
  then show "outcome (call c m ps (Some p)) = Rejected e"
    and "progress_after (call c m ps (Some p)) = Some ((w p)\<lparr>progress_error := Some e\<rparr>)"
    by (simp_all add: throw_recording_outcome throw_recording_progress)
next
  assume "sent_request c m ps = Some q \<and> send (sender c) q (Some p) = (Fulfilled res, w)
        \<and> res_error res = Some re"
  then have "call c m ps (Some p) =
      throw_recording (ThrownErr (Err_new (error_code re) (Some (error_message re)) no_opts))
        (Some (w p)) (auth_trace c m ps @ [Send q (Some p)])"
    by (simp add: call_reaches_send call_send_fulfilled call_response_error)
  then show "\<exists>e. outcome (call c m ps (Some p)) = Rejected e
         \<and> progress_after (call c m ps (Some p)) = Some ((w p)\<lparr>progress_error := Some e\<rparr>)"
    by (simp add: throw_recording_outcome throw_recording_progress)
next
  assume "session (state c) = Some s \<and> sent_request c m ps = Some q
        \<and> send (sender c) q (Some p) = (Fulfilled res, w)
        \<and> res_error res = None \<and> verify s res = Fulfilled False"
  then have "call c m ps (Some p) =
      throw_recording (ThrownErr (Err_new INVALID_RESPONSE None no_opts))
        (Some (w p)) ((auth_trace c m ps @ [Send q (Some p)]) @ [Verify res])"
    by (simp add: call_reaches_send call_send_fulfilled call_response_clean call_verify_false)
  then show "\<exists>e. outcome (call c m ps (Some p)) = Rejected e
         \<and> progress_after (call c m ps (Some p)) = Some ((w p)\<lparr>progress_error := Some e\<rparr>)"
    by (simp add: throw_recording_outcome throw_recording_progress)
next
  assume ok: "outcome (call c m ps (Some p)) = Fulfilled res"
  then show "\<forall>e. SetProgressError e \<notin> set (trace (call c m ps (Some p)))"
    by (auto simp: call_def call_send_def call_response_def call_verify_def throw_recording_def
          Let_def split: option.splits settled.splits prod.splits if_splits)
  from ok show reached: "\<exists>q. sent_request c m ps = Some q
             \<and> progress_after (call c m ps (Some p)) = Some (snd (send (sender c) q (Some p)) p)"
    by (auto simp: call_def call_send_def call_response_def call_verify_def throw_recording_def
          sent_request_def Let_def split: option.splits settled.splits prod.splits if_splits)
  assume "progress_error p = None
          \<and> (\<forall>q. progress_error (snd (send (sender c) q (Some p)) p) = progress_error p)"
  with reached show "\<exists>p'. progress_after (call c m ps (Some p)) = Some p' \<and> progress_error p' = None"
    by auto
qed

text \<open>
  Claim C10. When \<open>verify\<close> resolves to false and a progress object was supplied, the
  \<open>INVALID_RESPONSE\<close> error is on the progress object when the call rejects with it:
  the assignment follows the call of \<open>verify\<close> and is the last thing the call does.
\<close>

theorem call_verification_failure_recorded:
  "session (state c) = Some s \<Longrightarrow>
   sent_request c m ps = Some q \<Longrightarrow>
   send (sender c) q (Some p) = (Fulfilled res, w) \<Longrightarrow>
   res_error res = None \<Longrightarrow>
   verify s res = Fulfilled False \<Longrightarrow>
   progress_after (call c m ps (Some p)) =
     Some ((w p)\<lparr>progress_error := Some (ThrownErr (Err_new INVALID_RESPONSE None no_opts))\<rparr>)
   \<and> trace (call c m ps (Some p)) =
       [Authenticate (envelope c m ps), Send q (Some p), Verify res,
        SetProgressError (ThrownErr (Err_new INVALID_RESPONSE None no_opts))]
   \<and> outcome (call c m ps (Some p)) =
       Rejected (ThrownErr (Err_new INVALID_RESPONSE None no_opts))"
proof -
  assume sess: "session (state c) = Some s"
    and sent: "sent_request c m ps = Some q"
    and w: "send (sender c) q (Some p) = (Fulfilled res, w)"
    and clean: "res_error res = None"
    and no: "verify s res = Fulfilled False"
  have "call c m ps (Some p) =
      throw_recording (ThrownErr (Err_new INVALID_RESPONSE None no_opts))
        (Some (w p)) ((auth_trace c m ps @ [Send q (Some p)]) @ [Verify res])"
    by (simp add: call_reaches_send [OF sent] call_send_fulfilled [OF w]
          call_response_clean [OF clean] sess call_verify_false [OF no])
  moreover have "auth_trace c m ps = [Authenticate (envelope c m ps)]"
    by (simp add: auth_trace_def sess)
  ultimately show ?thesis
    by (simp add: throw_recording_outcome throw_recording_progress throw_recording_trace)
qed

text \<open>
  The three writers of the progress object's error: an assignment happens only after a
  transport failure, a structured error or a refused verification. A call that fails
  elsewhere, because \<open>authenticate\<close> or \<open>verify\<close> rejects, leaves the error as it
  was.
\<close>

lemma progress_error_writers:
  "SetProgressError e \<in> set (trace (call c m ps pg)) \<Longrightarrow>
   \<exists>p q w. pg = Some p \<and> sent_request c m ps = Some q
     \<and> (send (sender c) q pg = (Rejected e, w)
        \<or> (\<exists>res re. send (sender c) q pg = (Fulfilled res, w) \<and> res_error res = Some re
              \<and> e = ThrownErr (Err_new (error_code re) (Some (error_message re)) no_opts))
        \<or> (\<exists>res s. send (sender c) q pg = (Fulfilled res, w) \<and> res_error res = None
              \<and> session (state c) = Some s \<and> verify s res = Fulfilled False
              \<and> e = ThrownErr (Err_new INVALID_RESPONSE None no_opts)))"
  by (auto simp: call_def call_send_def call_response_def call_verify_def throw_recording_def
        sent_request_def Let_def split: option.splits settled.splits prod.splits if_splits)

lemma call_failure_before_send_leaves_progress:
  "sent_request c m ps = None \<Longrightarrow> progress_after (call c m ps pg) = pg"
  by (auto simp: sent_request_def call_def Let_def split: option.splits settled.splits)

lemma call_verify_rejection_leaves_progress:
  "session (state c) = Some s \<Longrightarrow> sent_request c m ps = Some q \<Longrightarrow>
   send (sender c) q pg = (Fulfilled res, w) \<Longrightarrow> res_error res = None \<Longrightarrow>
   verify s res = Rejected e \<Longrightarrow>
   outcome (call c m ps pg) = Rejected e \<and> progress_after (call c m ps pg) = map_option w pg"
  by (simp add: call_reaches_send call_send_fulfilled call_response_clean call_verify_def)


text \<open>The example collaborators, evaluated.\<close>

lemma example_client_parts:
  "session (state (example_client sess)) = sess"
  "sender (example_client sess) = example_sender"
  "envelope (example_client sess) m ps =
     \<lparr>req_method = m, req_params = ps, req_device = ''laptop'', req_auth = None\<rparr>"
  by (simp_all add: example_client_def envelope_def)

lemma example_sent_request:
  "sent_request (example_client None) m ps =
     Some \<lparr>req_method = m, req_params = ps, req_device = ''laptop'', req_auth = None\<rparr>"
  "sent_request (example_client (Some example_session)) m ps =
     Some \<lparr>req_method = m, req_params = ps, req_device = ''laptop'', req_auth = Some 7\<rparr>"
  by (simp_all add: sent_request_def example_client_parts example_session_def)

lemma example_send:
  "send example_sender \<lparr>req_method = ''getVault'', req_params = ps, req_device = d, req_auth = a\<rparr> pg =
     (Fulfilled \<lparr>res_error = None, result = Some 42\<rparr>, \<lambda>p. p\<lparr>loaded := total p\<rparr>)"
  "send example_sender \<lparr>req_method = ''forged'', req_params = ps, req_device = d, req_auth = a\<rparr> pg =
     (Fulfilled \<lparr>res_error = None, result = Some 13\<rparr>, \<lambda>p. p\<lparr>loaded := total p\<rparr>)"
  "send example_sender \<lparr>req_method = ''missing'', req_params = ps, req_device = d, req_auth = a\<rparr> pg =
     (Fulfilled
        \<lparr>res_error = Some \<lparr>error_code = NOT_FOUND, error_message = ''no such vault''\<rparr>,
         result = None\<rparr>,
      \<lambda>p. p\<lparr>loaded := total p\<rparr>)"
  "send example_sender \<lparr>req_method = ''offline'', req_params = ps, req_device = d, req_auth = a\<rparr> pg =
     (Rejected (Thrown 0), \<lambda>p. p\<lparr>loaded := total p\<rparr>)"
  by (simp_all add: example_sender_def)

lemma example_verify:
  "verify example_session \<lparr>res_error = None, result = Some 42\<rparr> = Fulfilled True"
  "verify example_session \<lparr>res_error = None, result = Some 13\<rparr> = Fulfilled False"
  by (simp_all add: example_session_def)

lemma example_call_succeeds:
  "outcome (call (example_client (Some example_session)) ''getVault'' None pg) =
     Fulfilled \<lparr>res_error = None, result = Some 42\<rparr>"
  by (simp add: call_reaches_send example_sent_request call_send_fulfilled example_send
        example_client_parts call_response_clean call_verify_def example_verify)

theorem call_order_witness:
  "(\<forall>q. Authenticate q \<notin> set (trace (call (example_client None) ''initAuth'' None None)))
   \<and> (\<exists>rest. trace (call (example_client None) ''initAuth'' None None) =
         Send \<lparr>req_method = ''initAuth'', req_params = None, req_device = ''laptop'',
               req_auth = None\<rparr> None # rest)
   \<and> verify example_session \<lparr>res_error = None, result = Some 42\<rparr> = Fulfilled True
   \<and> (\<exists>q. trace (call (example_client (Some example_session)) ''getVault'' None None) =
         [Authenticate \<lparr>req_method = ''getVault'', req_params = None, req_device = ''laptop'',
                        req_auth = None\<rparr>,
          Send q None, Verify \<lparr>res_error = None, result = Some 42\<rparr>])"
proof -
  have none: "session (state (example_client None)) = None"
    by (simp add: example_client_parts)
  have some: "session (state (example_client (Some example_session))) = Some example_session"
    by (simp add: example_client_parts)
  from call_order [of "example_client None" "''initAuth''" None None] none
  have "(\<forall>q. Authenticate q \<notin> set (trace (call (example_client None) ''initAuth'' None None)))
      \<and> (\<exists>rest. trace (call (example_client None) ''initAuth'' None None) =
            Send (envelope (example_client None) ''initAuth'' None) None # rest)"
    by blast
  moreover
  from call_order [of "example_client (Some example_session)" "''getVault''" None None example_session]
    some example_call_succeeds [of None]
  have "verify example_session \<lparr>res_error = None, result = Some 42\<rparr> = Fulfilled True
      \<and> (\<exists>q. trace (call (example_client (Some example_session)) ''getVault'' None None) =
            [Authenticate (envelope (example_client (Some example_session)) ''getVault'' None),
             Send q None, Verify \<lparr>res_error = None, result = Some 42\<rparr>])"
    by blast
  ultimately show ?thesis
    by (simp add: example_client_parts)
qed

theorem call_rejects_unverified_witness:
  "outcome (call (example_client (Some example_session)) ''forged'' None None) =
     Rejected (ThrownErr (Err_new INVALID_RESPONSE None no_opts))
   \<and> code (Err_new INVALID_RESPONSE None no_opts) = INVALID_RESPONSE"
  by (rule call_rejects_unverified
        [where s = example_session
           and q = "\<lparr>req_method = ''forged'', req_params = None, req_device = ''laptop'',
                     req_auth = Some 7\<rparr>"
           and res = "\<lparr>res_error = None, result = Some 13\<rparr>"])
     (simp_all add: example_client_parts example_sent_request example_send example_verify)

theorem call_raises_structured_error_witness:
  "outcome (call (example_client (Some example_session)) ''missing'' None (Some example_progress)) =
     Rejected (ThrownErr (Err_new NOT_FOUND (Some ''no such vault'') no_opts))
   \<and> status (Err_new NOT_FOUND (Some ''no such vault'') no_opts) = 404
   \<and> progress_after
        (call (example_client (Some example_session)) ''missing'' None (Some example_progress)) =
       Some \<lparr>loaded = 10, total = 10,
             progress_error = Some (ThrownErr (Err_new NOT_FOUND (Some ''no such vault'') no_opts))\<rparr>"
proof -
  let ?c = "example_client (Some example_session)"
  let ?q = "\<lparr>req_method = ''missing'', req_params = None, req_device = ''laptop'',
             req_auth = Some (7::nat)\<rparr>"
  let ?re = "\<lparr>error_code = NOT_FOUND, error_message = ''no such vault''\<rparr>"
  let ?res = "\<lparr>res_error = Some ?re, result = None :: nat option\<rparr>"
  have sent: "sent_request ?c ''missing'' None = Some ?q"
    by (simp add: example_sent_request)
  have w: "send (sender ?c) ?q (Some example_progress) = (Fulfilled ?res, \<lambda>p. p\<lparr>loaded := total p\<rparr>)"
    by (simp add: example_client_parts example_send)
  have re: "res_error ?res = Some ?re"
    by simp
  from call_raises_structured_error [OF sent w re]
  show ?thesis
    by (simp add: example_progress_def)
qed

theorem call_progress_error_witness:
  "outcome (call (example_client None) ''offline'' None (Some example_progress)) = Rejected (Thrown 0)
   \<and> progress_after (call (example_client None) ''offline'' None (Some example_progress)) =
       Some \<lparr>loaded = 10, total = 10, progress_error = Some (Thrown 0)\<rparr>
   \<and> (\<exists>p'. progress_after
              (call (example_client (Some example_session)) ''getVault'' None (Some example_progress)) =
              Some p'
           \<and> progress_error p' = None)"
proof -
  let ?q = "\<lparr>req_method = ''offline'', req_params = None, req_device = ''laptop'',
             req_auth = None :: nat option\<rparr>"
  have failing: "sent_request (example_client None) ''offline'' None = Some ?q
      \<and> send (sender (example_client None)) ?q (Some example_progress) =
          (Rejected (Thrown 0), \<lambda>p. p\<lparr>loaded := total p\<rparr>)"
    by (simp add: example_sent_request example_client_parts example_send)
  have untouched: "progress_error example_progress = None
      \<and> (\<forall>q. progress_error
            (snd (send (sender (example_client (Some example_session))) q (Some example_progress))
               example_progress) = progress_error example_progress)"
    by (simp add: example_client_parts example_sender_def example_progress_def)
  from call_progress_error
    [of "example_client None" "''offline''" None ?q example_progress "Thrown 0"
        "\<lambda>p. p\<lparr>loaded := total p\<rparr>"]
    failing
  have "outcome (call (example_client None) ''offline'' None (Some example_progress)) = Rejected (Thrown 0)
      \<and> progress_after (call (example_client None) ''offline'' None (Some example_progress)) =
          Some (example_progress\<lparr>loaded := total example_progress, progress_error := Some (Thrown 0)\<rparr>)"
    by blast
  moreover
  from call_progress_error
    [of "example_client (Some example_session)" "''getVault''" None _ example_progress _ _
        "\<lparr>res_error = None, result = Some 42\<rparr>"]
    example_call_succeeds [of "Some example_progress"] untouched
  have "\<exists>p'. progress_after
              (call (example_client (Some example_session)) ''getVault'' None (Some example_progress)) =
              Some p'
           \<and> progress_error p' = None"
    by blast
  ultimately show ?thesis
    by (simp add: example_progress_def)
qed

theorem call_verification_failure_recorded_witness:
  "progress_after
     (call (example_client (Some example_session)) ''forged'' None (Some example_progress)) =
     Some \<lparr>loaded = 10, total = 10,
           progress_error = Some (ThrownErr (Err_new INVALID_RESPONSE None no_opts))\<rparr>
   \<and> outcome (call (example_client (Some example_session)) ''forged'' None (Some example_progress)) =
       Rejected (ThrownErr (Err_new INVALID_RESPONSE None no_opts))"
proof -
  let ?c = "example_client (Some example_session)"
  let ?q = "\<lparr>req_method = ''forged'', req_params = None, req_device = ''laptop'',
             req_auth = Some (7::nat)\<rparr>"
  let ?res = "\<lparr>res_error = None, result = Some (13::nat)\<rparr>"
  have sess: "session (state ?c) = Some example_session"
    by (simp add: example_client_parts)
  have sent: "sent_request ?c ''forged'' None = Some ?q"
    by (simp add: example_sent_request)
  have w: "send (sender ?c) ?q (Some example_progress) = (Fulfilled ?res, \<lambda>p. p\<lparr>loaded := total p\<rparr>)"
    by (simp add: example_client_parts example_send)
  have clean: "res_error ?res = None"
    by simp
  have no: "verify example_session ?res = Fulfilled False"
    by (simp add: example_verify)
  from call_verification_failure_recorded [OF sess sent w clean no]
  show ?thesis
    by (simp add: example_progress_def)
qed

end
